theory Spec2Isabelle
  imports Complex_Main "HOL-Library.Word"
begin

section \<open>The ray caster of main.cpp\<close>

text \<open>
  The embedding follows \<^verbatim>\<open>main.cpp\<close>: \<^verbatim>\<open>FindFirstIntersector\<close>, \<^verbatim>\<open>TraceRay\<close> and
  \<^verbatim>\<open>DrawScene\<close>.
\<close>

subsection \<open>Floats\<close>

text \<open>
  A value of the C++ type \<^verbatim>\<open>float\<close> is a real number or NaN. Arithmetic on numbers is
  exact (no rounding, no overflow to an infinity); an operation with a NaN operand
  yields NaN, and a comparison with a NaN operand is false, as IEEE 754 has it.
  \<^verbatim>\<open>FLT_MAX\<close> keeps its value, so the sentinel comparison of the nearest-hit search is
  the one of the code.
\<close>

datatype float = NaN | Fin real

instantiation float :: "{comm_monoid_add, minus, times}"
begin

definition zero_float :: float where
  "zero_float = Fin 0"

fun plus_float :: "float \<Rightarrow> float \<Rightarrow> float" where
  "plus_float (Fin a) (Fin b) = Fin (a + b)"
| "plus_float _ _ = NaN"

fun minus_float :: "float \<Rightarrow> float \<Rightarrow> float" where
  "minus_float (Fin a) (Fin b) = Fin (a - b)"
| "minus_float _ _ = NaN"

fun times_float :: "float \<Rightarrow> float \<Rightarrow> float" where
  "times_float (Fin a) (Fin b) = Fin (a * b)"
| "times_float _ _ = NaN"

instance
proof
  fix u v w :: float
  show "0 + u = u"
    by (cases u) (simp_all add: zero_float_def)
  show "u + v = v + u"
    by (cases u; cases v) (simp_all add: add.commute)
  show "u + v + w = u + (v + w)"
    by (cases u; cases v; cases w) (simp_all add: add.assoc)
qed

end

fun fless :: "float \<Rightarrow> float \<Rightarrow> bool" where
  \<comment> \<open>the comparison \<^verbatim>\<open><\<close> of two floats\<close>
  "fless (Fin a) (Fin b) = (a < b)"
| "fless _ _ = False"

definition std_max :: "float \<Rightarrow> float \<Rightarrow> float" where
  \<comment> \<open>\<^verbatim>\<open>std::max(a, b)\<close> is \<^verbatim>\<open>(a < b) ? b : a\<close>\<close>
  "std_max a b = (if fless a b then b else a)"

definition glm_max :: "float \<Rightarrow> float \<Rightarrow> float" where
  \<comment> \<open>\<^verbatim>\<open>glm::max(x, y)\<close> is \<^verbatim>\<open>(x < y) ? y : x\<close>\<close>
  "glm_max x y = (if fless x y then y else x)"

definition glm_min :: "float \<Rightarrow> float \<Rightarrow> float" where
  \<comment> \<open>\<^verbatim>\<open>glm::min(x, y)\<close> is \<^verbatim>\<open>(y < x) ? y : x\<close>\<close>
  "glm_min x y = (if fless y x then y else x)"

definition FLT_MAX :: float where
  "FLT_MAX = Fin ((2 ^ 24 - 1) * 2 ^ 104)"

subsection \<open>glm vectors\<close>

datatype vec3 = Vec3 (vx: float) (vy: float) (vz: float)

type_synonym vec2 = "float \<times> float"

instantiation vec3 :: "{comm_monoid_add, minus, times}"
begin

definition zero_vec3 :: vec3 where
  "zero_vec3 = Vec3 0 0 0"

definition plus_vec3 :: "vec3 \<Rightarrow> vec3 \<Rightarrow> vec3" where
  "plus_vec3 a b = Vec3 (vx a + vx b) (vy a + vy b) (vz a + vz b)"

definition minus_vec3 :: "vec3 \<Rightarrow> vec3 \<Rightarrow> vec3" where
  "minus_vec3 a b = Vec3 (vx a - vx b) (vy a - vy b) (vz a - vz b)"

definition times_vec3 :: "vec3 \<Rightarrow> vec3 \<Rightarrow> vec3" where
  \<comment> \<open>glm's \<^verbatim>\<open>vec3 * vec3\<close> is component-wise\<close>
  "times_vec3 a b = Vec3 (vx a * vx b) (vy a * vy b) (vz a * vz b)"

instance
proof
  fix a b c :: vec3
  show "a + b + c = a + (b + c)" by (simp add: plus_vec3_def add.assoc)
  show "a + b = b + a" by (simp add: plus_vec3_def add.commute)
  show "0 + a = a" by (simp add: plus_vec3_def zero_vec3_def)
qed

end

definition vmulf :: "vec3 \<Rightarrow> float \<Rightarrow> vec3" where
  \<comment> \<open>glm's \<^verbatim>\<open>vec3 * float\<close>\<close>
  "vmulf v s = Vec3 (vx v * s) (vy v * s) (vz v * s)"

definition dot :: "vec3 \<Rightarrow> vec3 \<Rightarrow> float" where
  "dot a b = vx a * vx b + vy a * vy b + vz a * vz b"

definition glm_normalize :: "vec3 \<Rightarrow> vec3" where
  \<comment> \<open>\<^verbatim>\<open>glm::normalize(v) = v * inversesqrt(dot(v, v))\<close>. Where the dot product is 0 the
     vector is the zero vector, \<^verbatim>\<open>inversesqrt\<close> yields an infinity and every component
     is 0 times that infinity, which is NaN; where the dot product is NaN every component
     is a product with NaN.\<close>
  "glm_normalize v =
     (case dot v v of
        NaN \<Rightarrow> Vec3 NaN NaN NaN
      | Fin s \<Rightarrow> if s = 0 then Vec3 NaN NaN NaN else vmulf v (Fin (1 / sqrt s)))"

definition reflect :: "vec3 \<Rightarrow> vec3 \<Rightarrow> vec3" where
  \<comment> \<open>\<^verbatim>\<open>glm::reflect(I, N) = I - N * dot(N, I) * 2\<close>\<close>
  "reflect I N = I - vmulf (vmulf N (dot N I)) (Fin 2)"

definition clamp :: "vec3 \<Rightarrow> vec3 \<Rightarrow> vec3 \<Rightarrow> vec3" where
  \<comment> \<open>\<^verbatim>\<open>glm::clamp(x, lo, hi) = min(max(x, lo), hi)\<close>, component-wise\<close>
  "clamp v lo hi =
     Vec3 (glm_min (glm_max (vx v) (vx lo)) (vx hi))
          (glm_min (glm_max (vy v) (vy lo)) (vy hi))
          (glm_min (glm_max (vz v) (vz lo)) (vz hi))"

subsection \<open>Materials, scene objects and the scene\<close>

record Material =
  albedo :: vec3
  specular :: vec3
  emissive :: vec3
  reflectance :: float

text \<open>
  \<^verbatim>\<open>SceneObject\<close> is declared in \<^verbatim>\<open>sceneobjects.h\<close>, which is not part of the sources at
  hand; \<^verbatim>\<open>main.cpp\<close> uses four virtual member functions of it, which an object carries
  here as four functions. \<^verbatim>\<open>bool Intersects(from, dir, float& distance)\<close> returns
  \<open>Some distance\<close> where the C++ returns \<^verbatim>\<open>true\<close> and \<open>None\<close> where it returns
  \<^verbatim>\<open>false\<close> (\<^verbatim>\<open>main.cpp\<close> reads \<^verbatim>\<open>distance\<close> only after \<^verbatim>\<open>true\<close>).
\<close>

record SceneObject =
  Intersects :: "vec3 \<Rightarrow> vec3 \<Rightarrow> float option"
  GetSurfaceNormal :: "vec3 \<Rightarrow> vec3"
  GetMaterial :: "vec3 \<Rightarrow> Material"
  GetRayFrom :: "vec3 \<Rightarrow> vec3"

text \<open>
  The scene is a vector of \<^verbatim>\<open>std::shared_ptr<SceneObject>\<close>. A non-null pointer is an
  address, the store maps addresses to objects, and \<^verbatim>\<open>occluder != light\<close> compares
  addresses. The null pointer is \<open>None\<close>.
\<close>

type_synonym ptr = nat

type_synonym store = "ptr \<Rightarrow> SceneObject"

datatype error = NullDereference | ConversionOutOfRange

subsection \<open>FindFirstIntersector\<close>

fun FindFirstIntersector_loop ::
  "store \<Rightarrow> vec3 \<Rightarrow> vec3 \<Rightarrow> ptr list \<Rightarrow> ptr option \<times> float \<Rightarrow> ptr option \<times> float" where
  "FindFirstIntersector_loop st from dir [] (pObject, minDistance) = (pObject, minDistance)"
| "FindFirstIntersector_loop st from dir (obj # rest) (pObject, minDistance) =
     (case Intersects (st obj) from dir of
        Some distance \<Rightarrow>
          if fless distance minDistance
          then FindFirstIntersector_loop st from dir rest (Some obj, distance)
          else FindFirstIntersector_loop st from dir rest (pObject, minDistance)
      | None \<Rightarrow> FindFirstIntersector_loop st from dir rest (pObject, minDistance))"

definition FindFirstIntersector ::
  "store \<Rightarrow> ptr list \<Rightarrow> vec3 \<Rightarrow> vec3 \<Rightarrow> ptr option \<times> float" where
  \<comment> \<open>the pair is (returned pointer, value left in \<^verbatim>\<open>dst\<close>)\<close>
  "FindFirstIntersector st sceneObjects from dir =
     FindFirstIntersector_loop st from dir sceneObjects (None, FLT_MAX)"

subsection \<open>TraceRay\<close>

definition shade_light ::
  "store \<Rightarrow> ptr list \<Rightarrow> vec3 \<Rightarrow> ptr \<Rightarrow> vec3 \<Rightarrow> vec3 \<Rightarrow> vec3 \<Rightarrow> ptr \<Rightarrow> vec3 \<Rightarrow> vec3" where
  \<comment> \<open>the body of the loop over the lights, lines 105 to 121\<close>
  "shade_light st sceneObjects raydir obj interPos normal albedo' light color =
     (let rayFrom = GetRayFrom (st light) interPos;
          rayFrom = glm_normalize rayFrom;
          (occluder, dis) =
            FindFirstIntersector st sceneObjects (interPos + vmulf rayFrom (Fin 0.001)) rayFrom;
          occlusionOccurred = (occluder \<noteq> Some light)
      in if \<not> occlusionOccurred
         then
           let intensity = std_max (dot normal rayFrom) (Fin 0);
               color = color + vmulf (albedo' * emissive (GetMaterial (st light) (Vec3 (Fin 0) (Fin 0) (Fin 0)))) intensity;
               reflection = reflect raydir normal;
               specular_intensity = dot reflection rayFrom;
               specular_intensity = specular_intensity * specular_intensity;
               color = color + vmulf (specular (GetMaterial (st obj) (Vec3 (Fin 0) (Fin 0) (Fin 0)))) specular_intensity
           in color
         else color)"

fun shade_loop ::
  "store \<Rightarrow> ptr list \<Rightarrow> vec3 \<Rightarrow> ptr \<Rightarrow> vec3 \<Rightarrow> vec3 \<Rightarrow> vec3 \<Rightarrow> ptr list \<Rightarrow> vec3 \<Rightarrow> vec3" where
  "shade_loop st sceneObjects raydir obj interPos normal albedo' [] color = color"
| "shade_loop st sceneObjects raydir obj interPos normal albedo' (light # rest) color =
     shade_loop st sceneObjects raydir obj interPos normal albedo' rest
       (shade_light st sceneObjects raydir obj interPos normal albedo' light color)"

definition TraceRay :: "store \<Rightarrow> ptr list \<Rightarrow> vec3 \<Rightarrow> vec3 \<Rightarrow> int \<Rightarrow> error + vec3" where
  \<comment> \<open>\<^verbatim>\<open>obj->\<close> on a null pointer is the error \<open>NullDereference\<close>\<close>
  "TraceRay st sceneObjects rayorig raydir depth =
     (case FindFirstIntersector st sceneObjects rayorig raydir of
        (None, minDistance) \<Rightarrow> Inl NullDereference
      | (Some obj, minDistance) \<Rightarrow>
          let interPos = rayorig + vmulf (glm_normalize raydir) minDistance;
              normal = GetSurfaceNormal (st obj) interPos;
              albedo' = albedo (GetMaterial (st obj) interPos);
              color = emissive (GetMaterial (st obj) (Vec3 (Fin 0) (Fin 0) (Fin 0)))
          in Inr (shade_loop st sceneObjects raydir obj interPos normal albedo' sceneObjects color))"

subsection \<open>DrawScene\<close>

text \<open>
  \<^verbatim>\<open>Camera\<close> is declared in \<^verbatim>\<open>camera.h\<close>, which is not part of the sources at hand:
  \<^verbatim>\<open>DrawScene\<close> reads its field \<^verbatim>\<open>position\<close> and calls \<^verbatim>\<open>GetWorldRay\<close>, which a camera
  carries here as a function. The bitmap is written only through \<^verbatim>\<open>PutPixel\<close>, so
  \<^verbatim>\<open>DrawScene\<close> returns the list of its \<^verbatim>\<open>PutPixel\<close> calls, in order.
\<close>

record Camera =
  position :: vec3
  GetWorldRay :: "vec2 \<Rightarrow> vec3"

record Color =
  red :: "8 word"
  green :: "8 word"
  blue :: "8 word"



fun uint8_t :: "float \<Rightarrow> error + 8 word" where
  \<comment> \<open>The conversion of a float to \<^verbatim>\<open>uint8_t\<close> truncates towards zero; it is undefined
     where the truncated value is not one of 0 to 255, and on NaN.\<close>
  "uint8_t (Fin v) =
     (if - 1 < v \<and> v < 256
      then Inr (word_of_int (if 0 \<le> v then \<lfloor>v\<rfloor> else \<lceil>v\<rceil>))
      else Inl ConversionOutOfRange)"
| "uint8_t NaN = Inl ConversionOutOfRange"

definition DrawPixel :: "Camera \<Rightarrow> store \<Rightarrow> ptr list \<Rightarrow> nat \<Rightarrow> nat \<Rightarrow> error + Color" where
  \<comment> \<open>the body of the inner loop, up to the colour handed to \<^verbatim>\<open>PutPixel\<close>\<close>
  "DrawPixel pCamera st sceneObjects x y =
     (let ray = GetWorldRay pCamera (Fin (real x) + Fin 0.5, Fin (real y) + Fin 0.5)
      in case TraceRay st sceneObjects (position pCamera) ray 0 of
           Inl e \<Rightarrow> Inl e
         | Inr color \<Rightarrow>
             (let color = vmulf color (Fin 255);
                  color = clamp color (Vec3 (Fin 0) (Fin 0) (Fin 0)) (Vec3 (Fin 255) (Fin 255) (Fin 255))
              in (case uint8_t (vx color) of
                    Inl e \<Rightarrow> Inl e
                  | Inr r \<Rightarrow>
                      (case uint8_t (vy color) of
                         Inl e \<Rightarrow> Inl e
                       | Inr g \<Rightarrow>
                           (case uint8_t (vz color) of
                              Inl e \<Rightarrow> Inl e
                            | Inr b \<Rightarrow> Inr \<lparr>red = r, green = g, blue = b\<rparr>)))))"




subsection \<open>Auxiliary notions for the statements\<close>

definition with_reflectance :: "(ptr \<Rightarrow> vec3 \<Rightarrow> float) \<Rightarrow> store \<Rightarrow> store" where
  \<comment> \<open>the same store, the \<^verbatim>\<open>reflectance\<close> of every material replaced\<close>
  "with_reflectance r st =
     (\<lambda>p. (st p)\<lparr>GetMaterial := \<lambda>q. (GetMaterial (st p) q)\<lparr>reflectance := r p q\<rparr>\<rparr>)"

definition hit_point :: "vec3 \<Rightarrow> vec3 \<Rightarrow> float \<Rightarrow> vec3" where
  \<comment> \<open>the intersection point: origin + normalize(direction) \<open>\<cdot>\<close> distance\<close>
  "hit_point rayorig raydir minDistance = rayorig + vmulf (glm_normalize raydir) minDistance"

definition lightDir :: "store \<Rightarrow> vec3 \<Rightarrow> ptr \<Rightarrow> vec3" where
  \<comment> \<open>the normalised direction from the intersection point towards a candidate light\<close>
  "lightDir st interPos light = glm_normalize (GetRayFrom (st light) interPos)"

definition occluder_of :: "store \<Rightarrow> ptr list \<Rightarrow> vec3 \<Rightarrow> ptr \<Rightarrow> ptr option" where
  \<comment> \<open>the nearest hit of the shadow ray towards a candidate light\<close>
  "occluder_of st sceneObjects interPos light =
     fst (FindFirstIntersector st sceneObjects
            (interPos + vmulf (lightDir st interPos light) (Fin 0.001)) (lightDir st interPos light))"

definition diffuse_term :: "vec3 \<Rightarrow> vec3 \<Rightarrow> vec3 \<Rightarrow> vec3 \<Rightarrow> vec3" where
  \<comment> \<open>\<open>max(dot(normal, lightDir), 0) \<cdot> albedo \<cdot> emissive\<close>, channel by channel\<close>
  "diffuse_term normal ldir alb lightEmissive =
     Vec3 (vx alb * vx lightEmissive * std_max (dot normal ldir) (Fin 0))
          (vy alb * vy lightEmissive * std_max (dot normal ldir) (Fin 0))
          (vz alb * vz lightEmissive * std_max (dot normal ldir) (Fin 0))"

definition specular_term :: "vec3 \<Rightarrow> vec3 \<Rightarrow> vec3 \<Rightarrow> vec3 \<Rightarrow> vec3" where
  \<comment> \<open>the square of \<open>dot(reflect(raydir, normal), lightDir)\<close> times the specular colour\<close>
  "specular_term raydir normal ldir spec =
     Vec3 (vx spec * (dot (reflect raydir normal) ldir * dot (reflect raydir normal) ldir))
          (vy spec * (dot (reflect raydir normal) ldir * dot (reflect raydir normal) ldir))
          (vz spec * (dot (reflect raydir normal) ldir * dot (reflect raydir normal) ldir))"

definition TraceRay_at_hit_point :: "store \<Rightarrow> ptr list \<Rightarrow> vec3 \<Rightarrow> vec3 \<Rightarrow> int \<Rightarrow> error + vec3" where
  \<comment> \<open>The shader as section 4.4 of the specification words it: emissive and specular of the
     hit object are those of its material at the intersection point.\<close>
  "TraceRay_at_hit_point st sceneObjects rayorig raydir depth =
     (case FindFirstIntersector st sceneObjects rayorig raydir of
        (None, minDistance) \<Rightarrow> Inl NullDereference
      | (Some obj, minDistance) \<Rightarrow>
          let interPos = hit_point rayorig raydir minDistance;
              normal = GetSurfaceNormal (st obj) interPos;
              mat = GetMaterial (st obj) interPos
          in Inr (emissive mat +
                  (\<Sum>light\<leftarrow>sceneObjects.
                     if occluder_of st sceneObjects interPos light = Some light
                     then diffuse_term normal (lightDir st interPos light) (albedo mat)
                            (emissive (GetMaterial (st light) (Vec3 (Fin 0) (Fin 0) (Fin 0)))) +
                          specular_term raydir normal (lightDir st interPos light) (specular mat)
                     else 0)))"

subsection \<open>Example scenes\<close>

text \<open>
  Concrete scene objects on which the functions above are evaluated below. A plane is
  given by a point and a unit normal; its intersection test normalises the direction
  it receives and reports the ray parameter \<open>dot(point - from, normal) / dot(dir, normal)\<close>
  when that is positive.
\<close>

fun fdiv :: "float \<Rightarrow> float \<Rightarrow> float" where
  \<comment> \<open>the quotient of two floats; the planes below divide by a number other than 0 only\<close>
  "fdiv (Fin a) (Fin b) = (if b = 0 then NaN else Fin (a / b))"
| "fdiv _ _ = NaN"

definition plane_Intersects :: "vec3 \<Rightarrow> vec3 \<Rightarrow> vec3 \<Rightarrow> vec3 \<Rightarrow> float option" where
  "plane_Intersects point normal from dir =
     (let d = glm_normalize dir; denom = dot d normal
      in if denom = Fin 0 then None
         else let t = fdiv (dot (point - from) normal) denom
              in if fless (Fin 0) t then Some t else None)"

definition plane_Intersects_raw :: "vec3 \<Rightarrow> vec3 \<Rightarrow> vec3 \<Rightarrow> vec3 \<Rightarrow> float option" where
  \<comment> \<open>the quotient of section 4.1 of the specification on the direction as it is
     received, not normalised\<close>
  "plane_Intersects_raw point normal from dir =
     (let denom = dot dir normal
      in if denom = Fin 0 then None
         else let t = fdiv (dot (point - from) normal) denom
              in if fless (Fin 0) t then Some t else None)"

definition evenTile :: Material where
  "evenTile = \<lparr>albedo = Vec3 (Fin 1) (Fin 1) (Fin 1),
                specular = Vec3 (Fin (1/2)) (Fin (1/2)) (Fin (1/2)),
                emissive = Vec3 (Fin 0) (Fin 0) (Fin 0), reflectance = Fin 0\<rparr>"

definition oddTile :: Material where
  "oddTile = \<lparr>albedo = Vec3 (Fin 0) (Fin 0) (Fin 0),
               specular = Vec3 (Fin 0) (Fin 0) (Fin 0),
               emissive = Vec3 (Fin 0) (Fin 0) (Fin 1), reflectance = Fin 0\<rparr>"

definition lamp :: Material where
  "lamp = \<lparr>albedo = Vec3 (Fin 0) (Fin 0) (Fin 0),
            specular = Vec3 (Fin 1) (Fin 1) (Fin 1),
            emissive = Vec3 (Fin 1) (Fin 1) (Fin 1), reflectance = Fin 0\<rparr>"

fun tile_parity :: "float \<Rightarrow> float \<Rightarrow> bool" where
  "tile_parity (Fin x) (Fin z) = even (\<lfloor>x\<rfloor> + \<lfloor>z\<rfloor>)"
| "tile_parity _ _ = True"

definition tiles :: "vec3 \<Rightarrow> Material" where
  \<comment> \<open>a checkerboard on the x and z axes, tile size 1\<close>
  "tiles p = (if tile_parity (vx p) (vz p) then evenTile else oddTile)"

definition ground :: SceneObject where
  \<comment> \<open>the plane y = 0, facing up, with the checkerboard\<close>
  "ground = \<lparr>Intersects = plane_Intersects (Vec3 (Fin 0) (Fin 0) (Fin 0)) (Vec3 (Fin 0) (Fin 1) (Fin 0)),
              GetSurfaceNormal = (\<lambda>p. Vec3 (Fin 0) (Fin 1) (Fin 0)),
              GetMaterial = tiles,
              GetRayFrom = (\<lambda>p. Vec3 (Fin 0) (Fin (- 1)) (Fin 0))\<rparr>"

definition ceiling_light :: SceneObject where
  \<comment> \<open>the plane y = 2, facing down, emitting white light\<close>
  "ceiling_light =
     \<lparr>Intersects = plane_Intersects (Vec3 (Fin 0) (Fin 2) (Fin 0)) (Vec3 (Fin 0) (Fin (- 1)) (Fin 0)),
      GetSurfaceNormal = (\<lambda>p. Vec3 (Fin 0) (Fin (- 1)) (Fin 0)),
      GetMaterial = (\<lambda>p. lamp),
      GetRayFrom = (\<lambda>p. Vec3 (Fin 0) (Fin 2) (Fin 0))\<rparr>"

definition raw_ground :: SceneObject where
  \<comment> \<open>the plane y = 0 with an intersection test that does not normalise\<close>
  "raw_ground =
     \<lparr>Intersects = plane_Intersects_raw (Vec3 (Fin 0) (Fin 0) (Fin 0)) (Vec3 (Fin 0) (Fin 1) (Fin 0)),
      GetSurfaceNormal = (\<lambda>p. Vec3 (Fin 0) (Fin 1) (Fin 0)),
      GetMaterial = tiles,
      GetRayFrom = (\<lambda>p. Vec3 (Fin 0) (Fin (- 1)) (Fin 0))\<rparr>"


definition room :: store where
  \<comment> \<open>address 0 holds the ground, every other address the ceiling light\<close>
  "room p = (if p = 0 then ground else ceiling_light)"

definition raw_room :: store where
  "raw_room p = raw_ground"



section \<open>Auxiliary facts\<close>

subsection \<open>Floats and vectors\<close>

lemma fless_trans: "fless a b \<Longrightarrow> fless b c \<Longrightarrow> fless a c"
  by (cases a; cases b; cases c) simp_all

lemma fless_not_fless: "fless d m \<Longrightarrow> \<not> fless d0 m \<Longrightarrow> d0 = NaN \<or> fless d d0"
  by (cases d; cases m; cases d0) simp_all

lemma fless_irrefl: "\<not> fless a a"
  by (cases a) simp_all

lemma glm_normalize_finite:
  assumes "a \<noteq> 0 \<or> b \<noteq> 0 \<or> c \<noteq> 0"
  shows "glm_normalize (Vec3 (Fin a) (Fin b) (Fin c)) =
           Vec3 (Fin (a * (1 / sqrt (a * a + b * b + c * c))))
                (Fin (b * (1 / sqrt (a * a + b * b + c * c))))
                (Fin (c * (1 / sqrt (a * a + b * b + c * c))))"
    and "(a * (1 / sqrt (a * a + b * b + c * c))) * (a * (1 / sqrt (a * a + b * b + c * c))) +
         (b * (1 / sqrt (a * a + b * b + c * c))) * (b * (1 / sqrt (a * a + b * b + c * c))) +
         (c * (1 / sqrt (a * a + b * b + c * c))) * (c * (1 / sqrt (a * a + b * b + c * c))) = 1"
proof -
  define s where "s = a * a + b * b + c * c"
  define k where "k = 1 / sqrt s"
  have "a * a + b * b + c * c \<noteq> 0"
    using assms by (metis add_nonneg_eq_0_iff mult_eq_0_iff zero_le_square add_nonneg_nonneg)
  moreover have "0 \<le> a * a + b * b + c * c"
    by (simp add: add_nonneg_nonneg)
  ultimately have pos: "0 < s" unfolding s_def by linarith
  then have nonneg: "0 \<le> s" by simp
  have kk: "k * k = 1 / s" using nonneg by (simp add: k_def)
  show "glm_normalize (Vec3 (Fin a) (Fin b) (Fin c)) =
           Vec3 (Fin (a * (1 / sqrt (a * a + b * b + c * c))))
                (Fin (b * (1 / sqrt (a * a + b * b + c * c))))
                (Fin (c * (1 / sqrt (a * a + b * b + c * c))))"
    using pos by (simp add: glm_normalize_def dot_def vmulf_def s_def)
  have "a * k * (a * k) + b * k * (b * k) + c * k * (c * k) = s * (k * k)"
    by (simp add: s_def algebra_simps)
  also have "\<dots> = 1" using pos by (simp add: kk)
  finally show "(a * (1 / sqrt (a * a + b * b + c * c))) * (a * (1 / sqrt (a * a + b * b + c * c))) +
         (b * (1 / sqrt (a * a + b * b + c * c))) * (b * (1 / sqrt (a * a + b * b + c * c))) +
         (c * (1 / sqrt (a * a + b * b + c * c))) * (c * (1 / sqrt (a * a + b * b + c * c))) = 1"
    by (simp add: k_def s_def)
qed

lemma dot_glm_normalize:
  assumes "a \<noteq> 0 \<or> b \<noteq> 0 \<or> c \<noteq> 0"
  shows "dot (glm_normalize (Vec3 (Fin a) (Fin b) (Fin c)))
             (glm_normalize (Vec3 (Fin a) (Fin b) (Fin c))) = Fin 1"
  using glm_normalize_finite(2) [OF assms]
  by (simp add: glm_normalize_finite(1) [OF assms] dot_def)

lemma shadow_offset_length:
  assumes "a \<noteq> 0 \<or> b \<noteq> 0 \<or> c \<noteq> 0"
  shows "dot ((Vec3 (Fin p) (Fin q) (Fin r) +
               vmulf (glm_normalize (Vec3 (Fin a) (Fin b) (Fin c))) (Fin 0.001)) -
              Vec3 (Fin p) (Fin q) (Fin r))
             ((Vec3 (Fin p) (Fin q) (Fin r) +
               vmulf (glm_normalize (Vec3 (Fin a) (Fin b) (Fin c))) (Fin 0.001)) -
              Vec3 (Fin p) (Fin q) (Fin r)) = Fin (0.001 * 0.001)"
proof -
  define k where "k = 1 / sqrt (a * a + b * b + c * c)"
  have one: "a * k * (a * k) + b * k * (b * k) + c * k * (c * k) = 1"
    using glm_normalize_finite(2) [OF assms] by (simp add: k_def)
  have "a * k * (1 / 1000) * (a * k * (1 / 1000)) + b * k * (1 / 1000) * (b * k * (1 / 1000)) +
        c * k * (1 / 1000) * (c * k * (1 / 1000)) =
        (a * k * (a * k) + b * k * (b * k) + c * k * (c * k)) * (1 / 1000 * (1 / 1000))"
    by (simp add: algebra_simps)
  also have "\<dots> = 1 / 1000 * (1 / 1000)" by (simp add: one)
  finally have len: "a * k * (1 / 1000) * (a * k * (1 / 1000)) + b * k * (1 / 1000) * (b * k * (1 / 1000)) +
        c * k * (1 / 1000) * (c * k * (1 / 1000)) = 1 / 1000 * (1 / 1000)" .
  show ?thesis
    using len
    by (simp add: glm_normalize_finite(1) [OF assms] dot_def plus_vec3_def minus_vec3_def
        vmulf_def k_def)
qed

lemma glm_normalize_down2:
  "glm_normalize (Vec3 (Fin 0) (Fin (- 2)) (Fin 0)) = Vec3 (Fin 0) (Fin (- 1)) (Fin 0)"
  by (simp add: glm_normalize_def dot_def vmulf_def)

lemma glm_normalize_down:
  "glm_normalize (Vec3 (Fin 0) (Fin (- 1)) (Fin 0)) = Vec3 (Fin 0) (Fin (- 1)) (Fin 0)"
  by (simp add: glm_normalize_def dot_def vmulf_def)

lemma glm_normalize_up2:
  "glm_normalize (Vec3 (Fin 0) (Fin 2) (Fin 0)) = Vec3 (Fin 0) (Fin 1) (Fin 0)"
  by (simp add: glm_normalize_def dot_def vmulf_def)

lemma glm_normalize_up:
  "glm_normalize (Vec3 (Fin 0) (Fin 1) (Fin 0)) = Vec3 (Fin 0) (Fin 1) (Fin 0)"
  by (simp add: glm_normalize_def dot_def vmulf_def)


subsection \<open>The nearest-hit search\<close>

text \<open>
  The invariant of the loop of \<^verbatim>\<open>FindFirstIntersector\<close>: either no object of the list
  replaced the running pair, and then no hit of the list is below the running minimum;
  or the result is an object of the list, strictly nearer than the running minimum,
  strictly nearer than every hit before it (a NaN distance apart) and not farther than
  any hit after it.
\<close>

lemma FindFirstIntersector_loop_inv:
  "FindFirstIntersector_loop st src dir objs (acc, m) = (r, d) \<Longrightarrow>
   (r = acc \<and> d = m \<and> (\<forall>p\<in>set objs. \<forall>d'. Intersects (st p) src dir = Some d' \<longrightarrow> \<not> fless d' m))
   \<or> (\<exists>obj earlier later. r = Some obj \<and> objs = earlier @ obj # later \<and>
          Intersects (st obj) src dir = Some d \<and> fless d m \<and>
          (\<forall>p\<in>set earlier. \<forall>d'. Intersects (st p) src dir = Some d' \<longrightarrow> d' = NaN \<or> fless d d') \<and>
          (\<forall>p\<in>set later. \<forall>d'. Intersects (st p) src dir = Some d' \<longrightarrow> \<not> fless d' d))"
proof (induction objs arbitrary: acc m)
  case Nil
  then show ?case by simp
next
  case (Cons obj rest)
  show ?case
  proof (cases "Intersects (st obj) src dir")
    case None
    with Cons.prems have run: "FindFirstIntersector_loop st src dir rest (acc, m) = (r, d)"
      by simp
    from Cons.IH [OF run] show ?thesis
    proof (elim disjE exE conjE)
      assume "r = acc" "d = m"
        and "\<forall>p\<in>set rest. \<forall>d'. Intersects (st p) src dir = Some d' \<longrightarrow> \<not> fless d' m"
      with None show ?thesis by simp
    next
      fix obj' earlier later
      assume h: "r = Some obj'" "rest = earlier @ obj' # later"
        "Intersects (st obj') src dir = Some d" "fless d m"
        "\<forall>p\<in>set earlier. \<forall>d'. Intersects (st p) src dir = Some d' \<longrightarrow> d' = NaN \<or> fless d d'"
        "\<forall>p\<in>set later. \<forall>d'. Intersects (st p) src dir = Some d' \<longrightarrow> \<not> fless d' d"
      have "obj # rest = (obj # earlier) @ obj' # later" using h(2) by simp
      moreover have "\<forall>p\<in>set (obj # earlier). \<forall>d'.
          Intersects (st p) src dir = Some d' \<longrightarrow> d' = NaN \<or> fless d d'"
        using h(5) None by simp
      ultimately show ?thesis using h(1,3,4,6) by blast
    qed
  next
    case (Some d0)
    show ?thesis
    proof (cases "fless d0 m")
      case True
      with Some Cons.prems
      have run: "FindFirstIntersector_loop st src dir rest (Some obj, d0) = (r, d)"
        by simp
      from Cons.IH [OF run] show ?thesis
      proof (elim disjE exE conjE)
        assume h: "r = Some obj" "d = d0"
          "\<forall>p\<in>set rest. \<forall>d'. Intersects (st p) src dir = Some d' \<longrightarrow> \<not> fless d' d0"
        have "obj # rest = [] @ obj # rest" by simp
        moreover have "\<forall>p\<in>set []. \<forall>d'.
            Intersects (st p) src dir = Some d' \<longrightarrow> d' = NaN \<or> fless d d'"
          by simp
        ultimately show ?thesis using h Some True by blast
      next
        fix obj' earlier later
        assume h: "r = Some obj'" "rest = earlier @ obj' # later"
          "Intersects (st obj') src dir = Some d" "fless d d0"
          "\<forall>p\<in>set earlier. \<forall>d'. Intersects (st p) src dir = Some d' \<longrightarrow> d' = NaN \<or> fless d d'"
          "\<forall>p\<in>set later. \<forall>d'. Intersects (st p) src dir = Some d' \<longrightarrow> \<not> fless d' d"
        have "obj # rest = (obj # earlier) @ obj' # later" using h(2) by simp
        moreover have "\<forall>p\<in>set (obj # earlier). \<forall>d'.
            Intersects (st p) src dir = Some d' \<longrightarrow> d' = NaN \<or> fless d d'"
          using h(4,5) Some by simp
        moreover have "fless d m" using h(4) True by (rule fless_trans)
        ultimately show ?thesis using h(1,3,6) by blast
      qed
    next
      case False
      with Some Cons.prems
      have run: "FindFirstIntersector_loop st src dir rest (acc, m) = (r, d)"
        by simp
      from Cons.IH [OF run] show ?thesis
      proof (elim disjE exE conjE)
        assume "r = acc" "d = m"
          and "\<forall>p\<in>set rest. \<forall>d'. Intersects (st p) src dir = Some d' \<longrightarrow> \<not> fless d' m"
        with Some False show ?thesis by simp
      next
        fix obj' earlier later
        assume h: "r = Some obj'" "rest = earlier @ obj' # later"
          "Intersects (st obj') src dir = Some d" "fless d m"
          "\<forall>p\<in>set earlier. \<forall>d'. Intersects (st p) src dir = Some d' \<longrightarrow> d' = NaN \<or> fless d d'"
          "\<forall>p\<in>set later. \<forall>d'. Intersects (st p) src dir = Some d' \<longrightarrow> \<not> fless d' d"
        have "obj # rest = (obj # earlier) @ obj' # later" using h(2) by simp
        moreover have "d0 = NaN \<or> fless d d0" using h(4) False by (rule fless_not_fless)
        then have "\<forall>p\<in>set (obj # earlier). \<forall>d'.
            Intersects (st p) src dir = Some d' \<longrightarrow> d' = NaN \<or> fless d d'"
          using h(5) Some by simp
        ultimately show ?thesis using h(1,3,4,6) by blast
      qed
    qed
  qed
qed

lemma FindFirstIntersector_None:
  assumes "FindFirstIntersector st sceneObjects src dir = (None, dst)"
  shows "dst = FLT_MAX \<and>
         (\<forall>p\<in>set sceneObjects. \<forall>d. Intersects (st p) src dir = Some d \<longrightarrow> \<not> fless d FLT_MAX)"
  using FindFirstIntersector_loop_inv [of st src dir sceneObjects None FLT_MAX None dst] assms
  by (auto simp add: FindFirstIntersector_def)

lemma FindFirstIntersector_Some:
  assumes "FindFirstIntersector st sceneObjects src dir = (Some obj, dst)"
  shows "Intersects (st obj) src dir = Some dst \<and> fless dst FLT_MAX \<and>
         (\<exists>earlier later. sceneObjects = earlier @ obj # later \<and>
            (\<forall>p\<in>set earlier. \<forall>d. Intersects (st p) src dir = Some d \<longrightarrow> d = NaN \<or> fless dst d) \<and>
            (\<forall>p\<in>set later. \<forall>d. Intersects (st p) src dir = Some d \<longrightarrow> \<not> fless d dst))"
  using FindFirstIntersector_loop_inv [of st src dir sceneObjects None FLT_MAX "Some obj" dst] assms
  by (auto simp add: FindFirstIntersector_def)

lemma FindFirstIntersector_None_iff:
  "fst (FindFirstIntersector st sceneObjects src dir) = None \<longleftrightarrow>
   (\<forall>p\<in>set sceneObjects. \<forall>d. Intersects (st p) src dir = Some d \<longrightarrow> \<not> fless d FLT_MAX)"
proof
  assume none: "fst (FindFirstIntersector st sceneObjects src dir) = None"
  obtain dst where "FindFirstIntersector st sceneObjects src dir = (None, dst)"
    using none by (cases "FindFirstIntersector st sceneObjects src dir") simp
  from FindFirstIntersector_None [OF this]
  show "\<forall>p\<in>set sceneObjects. \<forall>d. Intersects (st p) src dir = Some d \<longrightarrow> \<not> fless d FLT_MAX"
    by simp
next
  assume far: "\<forall>p\<in>set sceneObjects. \<forall>d. Intersects (st p) src dir = Some d \<longrightarrow> \<not> fless d FLT_MAX"
  obtain r dst where run: "FindFirstIntersector st sceneObjects src dir = (r, dst)"
    by (cases "FindFirstIntersector st sceneObjects src dir")
  show "fst (FindFirstIntersector st sceneObjects src dir) = None"
  proof (cases r)
    case None
    with run show ?thesis by simp
  next
    case (Some obj)
    with FindFirstIntersector_Some [of st sceneObjects src dir obj dst] run
    have hit: "Intersects (st obj) src dir = Some dst" and near: "fless dst FLT_MAX"
      and "\<exists>earlier later. sceneObjects = earlier @ obj # later"
      by auto
    then have "obj \<in> set sceneObjects" by auto
    with far hit have "\<not> fless dst FLT_MAX" by blast
    with near show ?thesis by simp
  qed
qed

lemma FindFirstIntersector_loop_cong:
  "(\<forall>p\<in>set objs. Intersects (st p) src dir' = Intersects (st p) src dir) \<Longrightarrow>
   FindFirstIntersector_loop st src dir' objs acc = FindFirstIntersector_loop st src dir objs acc"
proof (induction objs arbitrary: acc)
  case Nil
  show ?case by (cases acc) simp
next
  case (Cons obj rest)
  then show ?case by (cases acc) (simp split: option.splits)
qed

subsection \<open>The shading loop\<close>

lemma shade_light_eq:
  "shade_light st sceneObjects raydir obj interPos normal alb light color =
     (if occluder_of st sceneObjects interPos light = Some light
      then color +
           (diffuse_term normal (lightDir st interPos light) alb
              (emissive (GetMaterial (st light) (Vec3 (Fin 0) (Fin 0) (Fin 0)))) +
            specular_term raydir normal (lightDir st interPos light)
              (specular (GetMaterial (st obj) (Vec3 (Fin 0) (Fin 0) (Fin 0)))))
      else color)"
proof (cases "occluder_of st sceneObjects interPos light = Some light")
  case True
  then have "fst (FindFirstIntersector st sceneObjects
            (interPos + vmulf (glm_normalize (GetRayFrom (st light) interPos)) (Fin 0.001))
            (glm_normalize (GetRayFrom (st light) interPos))) = Some light"
    by (simp add: occluder_of_def lightDir_def)
  then show ?thesis using True
    by (simp add: shade_light_def Let_def split_beta lightDir_def diffuse_term_def
        specular_term_def plus_vec3_def times_vec3_def vmulf_def add.assoc)
next
  case False
  then have "fst (FindFirstIntersector st sceneObjects
            (interPos + vmulf (glm_normalize (GetRayFrom (st light) interPos)) (Fin 0.001))
            (glm_normalize (GetRayFrom (st light) interPos))) \<noteq> Some light"
    by (simp add: occluder_of_def lightDir_def)
  then show ?thesis using False
    by (simp add: shade_light_def Let_def split_beta)
qed

lemma shade_loop_sum:
  "shade_loop st sceneObjects raydir obj interPos normal alb lights color =
     color + (\<Sum>light\<leftarrow>lights.
        if occluder_of st sceneObjects interPos light = Some light
        then diffuse_term normal (lightDir st interPos light) alb
               (emissive (GetMaterial (st light) (Vec3 (Fin 0) (Fin 0) (Fin 0)))) +
             specular_term raydir normal (lightDir st interPos light)
               (specular (GetMaterial (st obj) (Vec3 (Fin 0) (Fin 0) (Fin 0))))
        else 0)"
proof (induction lights arbitrary: color)
  case Nil
  show ?case by simp
next
  case (Cons light rest)
  show ?case
    by (simp only: shade_loop.simps Cons.IH list.map sum_list.Cons shade_light_eq)
       (simp add: add.assoc)
qed

lemma TraceRay_sum:
  "FindFirstIntersector st sceneObjects rayorig raydir = (Some obj, minDistance) \<Longrightarrow>
   TraceRay st sceneObjects rayorig raydir depth =
     Inr (emissive (GetMaterial (st obj) (Vec3 (Fin 0) (Fin 0) (Fin 0))) +
          (\<Sum>light\<leftarrow>sceneObjects.
             if occluder_of st sceneObjects (hit_point rayorig raydir minDistance) light = Some light
             then diffuse_term
                    (GetSurfaceNormal (st obj) (hit_point rayorig raydir minDistance))
                    (lightDir st (hit_point rayorig raydir minDistance) light)
                    (albedo (GetMaterial (st obj) (hit_point rayorig raydir minDistance)))
                    (emissive (GetMaterial (st light) (Vec3 (Fin 0) (Fin 0) (Fin 0)))) +
                  specular_term raydir
                    (GetSurfaceNormal (st obj) (hit_point rayorig raydir minDistance))
                    (lightDir st (hit_point rayorig raydir minDistance) light)
                    (specular (GetMaterial (st obj) (Vec3 (Fin 0) (Fin 0) (Fin 0))))
             else 0))"
  unfolding hit_point_def
  by (simp add: TraceRay_def Let_def shade_loop_sum)

lemma TraceRay_Inl_iff:
  "TraceRay st sceneObjects rayorig raydir depth = Inl e \<longleftrightarrow>
   e = NullDereference \<and> fst (FindFirstIntersector st sceneObjects rayorig raydir) = None"
  by (auto simp add: TraceRay_def Let_def split: prod.splits option.splits)

text \<open>
  Where the material of the hit object is the same at every point (a sphere of
  \<^verbatim>\<open>main.cpp\<close>), \<^const>\<open>TraceRay\<close> agrees with the shader of the specification.
\<close>

lemma TraceRay_uniform_material:
  assumes "FindFirstIntersector st sceneObjects rayorig raydir = (Some obj, minDistance)"
    and "\<forall>p. GetMaterial (st obj) p = GetMaterial (st obj) (Vec3 (Fin 0) (Fin 0) (Fin 0))"
  shows "TraceRay st sceneObjects rayorig raydir depth =
         TraceRay_at_hit_point st sceneObjects rayorig raydir depth"
proof -
  have m: "GetMaterial (st obj) (hit_point rayorig raydir minDistance) =
           GetMaterial (st obj) (Vec3 (Fin 0) (Fin 0) (Fin 0))"
    using assms(2) by blast
  show ?thesis
    by (simp add: TraceRay_sum [OF assms(1)] TraceRay_at_hit_point_def assms(1) Let_def m
        cong: if_cong)
qed

subsection \<open>Reflectance\<close>

lemma with_reflectance_fields:
  "Intersects (with_reflectance r st p) = Intersects (st p)"
  "GetSurfaceNormal (with_reflectance r st p) = GetSurfaceNormal (st p)"
  "GetRayFrom (with_reflectance r st p) = GetRayFrom (st p)"
  "albedo (GetMaterial (with_reflectance r st p) q) = albedo (GetMaterial (st p) q)"
  "specular (GetMaterial (with_reflectance r st p) q) = specular (GetMaterial (st p) q)"
  "emissive (GetMaterial (with_reflectance r st p) q) = emissive (GetMaterial (st p) q)"
  by (simp_all add: with_reflectance_def)

lemma FindFirstIntersector_loop_with_reflectance:
  "FindFirstIntersector_loop (with_reflectance r st) src dir objs acc =
   FindFirstIntersector_loop st src dir objs acc"
  by (induction st src dir objs acc rule: FindFirstIntersector_loop.induct)
     (simp_all add: with_reflectance_fields split: option.splits)

lemma FindFirstIntersector_with_reflectance:
  "FindFirstIntersector (with_reflectance r st) objs src dir = FindFirstIntersector st objs src dir"
  by (simp add: FindFirstIntersector_def FindFirstIntersector_loop_with_reflectance)

lemma shade_light_with_reflectance:
  "shade_light (with_reflectance r st) objs raydir obj interPos normal alb light color =
   shade_light st objs raydir obj interPos normal alb light color"
  by (simp add: Let_def shade_light_def
      FindFirstIntersector_with_reflectance with_reflectance_fields split: prod.splits)

lemma shade_loop_with_reflectance:
  "shade_loop (with_reflectance r st) objs raydir obj interPos normal alb lights color =
   shade_loop st objs raydir obj interPos normal alb lights color"
  by (induction lights arbitrary: color) (simp_all add: shade_light_with_reflectance)

subsection \<open>The render driver\<close>

lemma clamp_channel_Fin:
  "glm_min (glm_max (Fin v) (Fin 0)) (Fin 255) = Fin (min (max v 0) 255)"
  by (simp add: glm_min_def glm_max_def min_def max_def)


lemma uint8_t_clamped:
  "uint8_t (Fin (min (max v 0) 255)) = Inr (word_of_int \<lfloor>min (max v 0) 255\<rfloor>)"
proof -
  have "- 1 < min (max v 0) 255" and "min (max v 0) 255 < 256" and "0 \<le> min (max v 0) 255"
    by (simp_all add: min_def max_def)
  then show ?thesis
    by (simp only: uint8_t.simps if_True simp_thms)
qed

lemma uint_channel:
  "uint (word_of_int \<lfloor>min (max v 0) (255::real)\<rfloor> :: 8 word) = \<lfloor>min (max v 0) 255\<rfloor>"
proof -
  have "0 \<le> \<lfloor>min (max v 0) (255::real)\<rfloor>" by simp
  moreover have "\<lfloor>min (max v 0) (255::real)\<rfloor> \<le> 255"
    by (simp add: floor_le_iff)
  ultimately show ?thesis
    by (simp add: uint_word_of_int_eq take_bit_int_eq_self)
qed

lemma channel_range:
  "0 \<le> \<lfloor>min (max v 0) (255::real)\<rfloor> \<and> \<lfloor>min (max v 0) (255::real)\<rfloor> \<le> 255"
  by (simp add: floor_le_iff)

lemma DrawPixel_finite:
  assumes "TraceRay st sceneObjects (position pCamera)
             (GetWorldRay pCamera (Fin (real x) + Fin 0.5, Fin (real y) + Fin 0.5)) 0 =
           Inr (Vec3 (Fin a) (Fin b) (Fin c))"
  shows "DrawPixel pCamera st sceneObjects x y =
          Inr \<lparr>red = word_of_int \<lfloor>min (max (a * 255) 0) 255\<rfloor>,
               green = word_of_int \<lfloor>min (max (b * 255) 0) 255\<rfloor>,
               blue = word_of_int \<lfloor>min (max (c * 255) 0) 255\<rfloor>\<rparr>"
  using assms
  by (simp add: DrawPixel_def Let_def clamp_def vmulf_def clamp_channel_Fin
      uint8_t_clamped del: uint8_t.simps(1))

lemma DrawPixel_finite_range:
  assumes "TraceRay st sceneObjects (position pCamera)
             (GetWorldRay pCamera (Fin (real x) + Fin 0.5, Fin (real y) + Fin 0.5)) 0 =
           Inr (Vec3 (Fin a) (Fin b) (Fin c))"
  shows "\<exists>col. DrawPixel pCamera st sceneObjects x y = Inr col \<and>
           uint (red col) = \<lfloor>min (max (a * 255) 0) 255\<rfloor> \<and>
           uint (green col) = \<lfloor>min (max (b * 255) 0) 255\<rfloor> \<and>
           uint (blue col) = \<lfloor>min (max (c * 255) 0) 255\<rfloor> \<and>
           0 \<le> uint (red col) \<and> uint (red col) \<le> 255 \<and>
           0 \<le> uint (green col) \<and> uint (green col) \<le> 255 \<and>
           0 \<le> uint (blue col) \<and> uint (blue col) \<le> 255"
proof (intro exI conjI)
  show "DrawPixel pCamera st sceneObjects x y =
          Inr \<lparr>red = word_of_int \<lfloor>min (max (a * 255) 0) 255\<rfloor>,
               green = word_of_int \<lfloor>min (max (b * 255) 0) 255\<rfloor>,
               blue = word_of_int \<lfloor>min (max (c * 255) 0) 255\<rfloor>\<rparr>"
    by (rule DrawPixel_finite [OF assms])
qed (simp_all only: Color.select_convs uint_channel channel_range)



subsection \<open>The example scenes, evaluated\<close>

lemma plane_Intersects_vertical:
  "n \<noteq> 0 \<Longrightarrow> glm_normalize dir = Vec3 (Fin 0) (Fin dy) (Fin 0) \<Longrightarrow> dy \<noteq> 0 \<Longrightarrow>
   plane_Intersects (Vec3 (Fin 0) (Fin h) (Fin 0)) (Vec3 (Fin 0) (Fin n) (Fin 0))
     (Vec3 (Fin a) (Fin b) (Fin c)) dir =
     (if 0 < (h - b) * n / (dy * n) then Some (Fin ((h - b) * n / (dy * n))) else None)"
  by (simp add: plane_Intersects_def dot_def minus_vec3_def Let_def)

lemma room_fields:
  "Intersects (room 0) = plane_Intersects (Vec3 (Fin 0) (Fin 0) (Fin 0)) (Vec3 (Fin 0) (Fin 1) (Fin 0))"
  "Intersects (room (Suc 0)) =
     plane_Intersects (Vec3 (Fin 0) (Fin 2) (Fin 0)) (Vec3 (Fin 0) (Fin (- 1)) (Fin 0))"
  "GetSurfaceNormal (room 0) p = Vec3 (Fin 0) (Fin 1) (Fin 0)"
  "GetSurfaceNormal (room (Suc 0)) p = Vec3 (Fin 0) (Fin (- 1)) (Fin 0)"
  "GetMaterial (room 0) p = tiles p"
  "GetMaterial (room (Suc 0)) p = lamp"
  "GetRayFrom (room 0) p = Vec3 (Fin 0) (Fin (- 1)) (Fin 0)"
  "GetRayFrom (room (Suc 0)) p = Vec3 (Fin 0) (Fin 2) (Fin 0)"
  by (simp_all add: room_def ground_def ceiling_light_def)

lemma raw_room_fields:
  "Intersects (raw_room p) =
     plane_Intersects_raw (Vec3 (Fin 0) (Fin 0) (Fin 0)) (Vec3 (Fin 0) (Fin 1) (Fin 0))"
  by (simp add: raw_room_def raw_ground_def)


lemma tiles_values:
  "tiles (Vec3 (Fin 0) (Fin 0) (Fin 0)) = evenTile" "tiles (Vec3 (Fin 1) (Fin 0) (Fin 0)) = oddTile"
  by (simp_all add: tiles_def)

lemma tile_emissive:
  "emissive evenTile = Vec3 (Fin 0) (Fin 0) (Fin 0)"
  "emissive oddTile = Vec3 (Fin 0) (Fin 0) (Fin 1)"
  by (simp_all add: evenTile_def oddTile_def)

lemma room_primary:
  "FindFirstIntersector room [0, Suc 0] (Vec3 (Fin 1) (Fin 1) (Fin 0)) (Vec3 (Fin 0) (Fin (- 2)) (Fin 0)) =
     (Some 0, Fin 1)"
  by (simp add: FindFirstIntersector_def room_fields plane_Intersects_vertical
      glm_normalize_down2 FLT_MAX_def)

lemma room_hit_point:
  "hit_point (Vec3 (Fin 1) (Fin 1) (Fin 0)) (Vec3 (Fin 0) (Fin (- 2)) (Fin 0)) (Fin 1) =
     Vec3 (Fin 1) (Fin 0) (Fin 0)"
  by (simp add: hit_point_def glm_normalize_down2 vmulf_def plus_vec3_def)

lemma room_lightDir:
  "lightDir room p 0 = Vec3 (Fin 0) (Fin (- 1)) (Fin 0)"
  "lightDir room p (Suc 0) = Vec3 (Fin 0) (Fin 1) (Fin 0)"
  by (simp_all add: lightDir_def room_fields glm_normalize_down glm_normalize_up2)

lemma room_occluder_ground:
  "occluder_of room [0, Suc 0] (Vec3 (Fin 1) (Fin 0) (Fin 0)) 0 = None"
  by (simp add: occluder_of_def room_lightDir FindFirstIntersector_def room_fields
      plus_vec3_def vmulf_def plane_Intersects_vertical glm_normalize_down)

lemma room_occluder_ceiling:
  "occluder_of room [0, Suc 0] (Vec3 (Fin 1) (Fin 0) (Fin 0)) (Suc 0) = Some (Suc 0)"
  by (simp add: occluder_of_def room_lightDir FindFirstIntersector_def room_fields
      plus_vec3_def vmulf_def plane_Intersects_vertical glm_normalize_up FLT_MAX_def)

lemma room_shadow_search:
  "fst (FindFirstIntersector room [0, Suc 0]
          (Vec3 (Fin 1) (Fin 0) (Fin 0) + vmulf (Vec3 (Fin 0) (Fin (- 1)) (Fin 0)) (Fin (1 / 1000)))
          (Vec3 (Fin 0) (Fin (- 1)) (Fin 0))) = None"
  "fst (FindFirstIntersector room [0, Suc 0]
          (Vec3 (Fin 1) (Fin 0) (Fin 0) + vmulf (Vec3 (Fin 0) (Fin 1) (Fin 0)) (Fin (1 / 1000)))
          (Vec3 (Fin 0) (Fin 1) (Fin 0))) = Some (Suc 0)"
  using room_occluder_ground room_occluder_ceiling
  by (simp_all add: occluder_of_def room_lightDir)

lemma room_terms:
  "diffuse_term (Vec3 (Fin 0) (Fin 1) (Fin 0)) (Vec3 (Fin 0) (Fin 1) (Fin 0))
     (albedo oddTile) (emissive lamp) = Vec3 (Fin 0) (Fin 0) (Fin 0)"
  "dot (reflect (Vec3 (Fin 0) (Fin (- 2)) (Fin 0)) (Vec3 (Fin 0) (Fin 1) (Fin 0)))
     (Vec3 (Fin 0) (Fin 1) (Fin 0)) = Fin 2"
  "specular_term (Vec3 (Fin 0) (Fin (- 2)) (Fin 0)) (Vec3 (Fin 0) (Fin 1) (Fin 0))
     (Vec3 (Fin 0) (Fin 1) (Fin 0)) (specular evenTile) = Vec3 (Fin 2) (Fin 2) (Fin 2)"
  "specular_term (Vec3 (Fin 0) (Fin (- 2)) (Fin 0)) (Vec3 (Fin 0) (Fin 1) (Fin 0))
     (Vec3 (Fin 0) (Fin 1) (Fin 0)) (specular oddTile) = Vec3 (Fin 0) (Fin 0) (Fin 0)"
  by (simp_all add: diffuse_term_def specular_term_def reflect_def dot_def vmulf_def
      minus_vec3_def std_max_def oddTile_def evenTile_def lamp_def)

lemma room_TraceRay:
  "TraceRay room [0, Suc 0] (Vec3 (Fin 1) (Fin 1) (Fin 0)) (Vec3 (Fin 0) (Fin (- 2)) (Fin 0)) depth =
     Inr (Vec3 (Fin 2) (Fin 2) (Fin 2))"
  by (simp add: TraceRay_sum [OF room_primary] room_hit_point room_fields tiles_values
      room_occluder_ground room_occluder_ceiling room_lightDir room_terms)
     (simp add: evenTile_def plus_vec3_def zero_vec3_def zero_float_def)

lemma room_TraceRay_at_hit_point:
  "TraceRay_at_hit_point room [0, Suc 0] (Vec3 (Fin 1) (Fin 1) (Fin 0))
     (Vec3 (Fin 0) (Fin (- 2)) (Fin 0)) depth = Inr (Vec3 (Fin 0) (Fin 0) (Fin 1))"
  by (simp add: TraceRay_at_hit_point_def room_primary room_hit_point room_fields tiles_values
      room_occluder_ground room_occluder_ceiling room_lightDir room_terms)
     (simp add: oddTile_def plus_vec3_def zero_vec3_def zero_float_def)





lemma raw_room_tie:
  "FindFirstIntersector raw_room [3, 5] (Vec3 (Fin 0) (Fin 1) (Fin 0)) (Vec3 (Fin 0) (Fin (- 2)) (Fin 0)) =
     (Some 3, Fin (1 / 2))"
  by (simp add: FindFirstIntersector_def raw_room_fields plane_Intersects_raw_def
      dot_def minus_vec3_def FLT_MAX_def)

lemma room_far_hit:
  "Intersects (room 0) (Vec3 (Fin 0) FLT_MAX (Fin 0)) (Vec3 (Fin 0) (Fin (- 1)) (Fin 0)) = Some FLT_MAX"
  by (simp add: room_fields FLT_MAX_def plane_Intersects_vertical glm_normalize_down)

lemma room_miss:
  "Intersects (room 0) (Vec3 (Fin 0) (Fin 3) (Fin 0)) (Vec3 (Fin 0) (Fin 1) (Fin 0)) = None"
  "Intersects (room (Suc 0)) (Vec3 (Fin 0) (Fin 3) (Fin 0)) (Vec3 (Fin 0) (Fin 1) (Fin 0)) = None"
  by (simp_all add: room_fields plane_Intersects_vertical glm_normalize_up)



section \<open>The claims\<close>

subsection \<open>C1: the material of the hit object\<close>

text \<open>
  Claim C1 says that the accumulated colour starts from the emissive of the hit object's
  material at the intersection point, and that the specular term is multiplied by the
  specular colour of the material at that same point. \<^verbatim>\<open>TraceRay\<close> reads the albedo at
  the intersection point (line 98), but the emissive and the specular colour at the fixed
  point (0, 0, 0) (lines 100 and 120). On the checkerboard ground under the ceiling
  light, the ray from (1, 1, 0) straight down hits the ground at (1, 0, 0), on an odd
  tile, while (0, 0, 0) lies on an even tile: \<^const>\<open>TraceRay\<close> returns the colour
  (2, 2, 2), the shader worded by the specification returns (0, 0, 1).
\<close>

theorem TraceRay_material_at_origin:
  "FindFirstIntersector room [0, 1] (Vec3 (Fin 1) (Fin 1) (Fin 0)) (Vec3 (Fin 0) (Fin (- 2)) (Fin 0)) =
     (Some 0, Fin 1) \<and>
   Vec3 (Fin 1) (Fin 1) (Fin 0) + vmulf (glm_normalize (Vec3 (Fin 0) (Fin (- 2)) (Fin 0))) (Fin 1) =
     Vec3 (Fin 1) (Fin 0) (Fin 0) \<and>
   GetMaterial (room 0) (Vec3 (Fin 1) (Fin 0) (Fin 0)) = oddTile \<and>
   GetMaterial (room 0) (Vec3 (Fin 0) (Fin 0) (Fin 0)) = evenTile \<and>
   TraceRay room [0, 1] (Vec3 (Fin 1) (Fin 1) (Fin 0)) (Vec3 (Fin 0) (Fin (- 2)) (Fin 0)) 0 =
     Inr (Vec3 (Fin 2) (Fin 2) (Fin 2)) \<and>
   TraceRay_at_hit_point room [0, 1] (Vec3 (Fin 1) (Fin 1) (Fin 0)) (Vec3 (Fin 0) (Fin (- 2)) (Fin 0)) 0 =
     Inr (Vec3 (Fin 0) (Fin 0) (Fin 1))"
  by (simp add: room_primary room_TraceRay room_TraceRay_at_hit_point room_fields tiles_values
      glm_normalize_down2 vmulf_def plus_vec3_def)

subsection \<open>C2: the nearest hit and the tie-break\<close>

text \<open>
  Claim C2, with the sentinel made explicit. For every ray and every list of scene
  objects, \<^verbatim>\<open>FindFirstIntersector\<close> returns either the null pointer, with \<^verbatim>\<open>FLT_MAX\<close> as
  distance, and then no object that reports a hit reports a distance below \<^verbatim>\<open>FLT_MAX\<close>;
  or an object of the list together with the distance it reports, which is below
  \<^verbatim>\<open>FLT_MAX\<close>, strictly below every distance reported by an object inserted earlier
  (unless that distance is NaN), and not above any distance reported by an object
  inserted later. So the result is the minimum over the hits below \<^verbatim>\<open>FLT_MAX\<close>, and of
  two objects at the same distance the earlier one is kept.
\<close>

theorem FindFirstIntersector_nearest:
  assumes "FindFirstIntersector st sceneObjects src dir = (pObject, dst)"
  shows "case pObject of
      None \<Rightarrow>
        dst = FLT_MAX \<and>
        (\<forall>p\<in>set sceneObjects. \<forall>d. Intersects (st p) src dir = Some d \<longrightarrow> \<not> fless d FLT_MAX)
    | Some obj \<Rightarrow>
        Intersects (st obj) src dir = Some dst \<and> fless dst FLT_MAX \<and>
        (\<exists>earlier later. sceneObjects = earlier @ obj # later \<and>
           (\<forall>p\<in>set earlier. \<forall>d. Intersects (st p) src dir = Some d \<longrightarrow> d = NaN \<or> fless dst d) \<and>
           (\<forall>p\<in>set later. \<forall>d. Intersects (st p) src dir = Some d \<longrightarrow> \<not> fless d dst))"
proof (cases pObject)
  case None
  with assms have "FindFirstIntersector st sceneObjects src dir = (None, dst)" by simp
  from FindFirstIntersector_None [OF this] None show ?thesis by simp
next
  case (Some obj)
  with assms have "FindFirstIntersector st sceneObjects src dir = (Some obj, dst)" by simp
  from FindFirstIntersector_Some [OF this] Some show ?thesis by simp
qed

text \<open>
  Two objects, at the addresses 3 and 5, report the same distance 1/2: the earlier one
  is returned.
\<close>

theorem FindFirstIntersector_nearest_witness:
  "FindFirstIntersector raw_room [3, 5] (Vec3 (Fin 0) (Fin 1) (Fin 0)) (Vec3 (Fin 0) (Fin (- 2)) (Fin 0)) =
     (Some 3, Fin (1 / 2)) \<and>
   Intersects (raw_room 3) (Vec3 (Fin 0) (Fin 1) (Fin 0)) (Vec3 (Fin 0) (Fin (- 2)) (Fin 0)) =
     Some (Fin (1 / 2)) \<and>
   Intersects (raw_room 5) (Vec3 (Fin 0) (Fin 1) (Fin 0)) (Vec3 (Fin 0) (Fin (- 2)) (Fin 0)) =
     Some (Fin (1 / 2)) \<and>
   fless (Fin (1 / 2)) FLT_MAX"
proof -
  have "Intersects (raw_room 3) (Vec3 (Fin 0) (Fin 1) (Fin 0)) (Vec3 (Fin 0) (Fin (- 2)) (Fin 0)) =
          Some (Fin (1 / 2)) \<and> fless (Fin (1 / 2)) FLT_MAX"
    using FindFirstIntersector_nearest [OF raw_room_tie] by simp
  then show ?thesis
    by (simp add: raw_room_tie raw_room_def)
qed

text \<open>
  Claim C2 as stated fails at the sentinel: seen from the height \<^verbatim>\<open>FLT_MAX\<close> straight
  down, the ground reports a hit at the distance \<^verbatim>\<open>FLT_MAX\<close>; it is the only object
  and the minimum over the hits, and the null pointer is returned.
\<close>

theorem FindFirstIntersector_sentinel_counterexample:
  "Intersects (room 0) (Vec3 (Fin 0) FLT_MAX (Fin 0)) (Vec3 (Fin 0) (Fin (- 1)) (Fin 0)) = Some FLT_MAX \<and>
   FindFirstIntersector room [0] (Vec3 (Fin 0) FLT_MAX (Fin 0)) (Vec3 (Fin 0) (Fin (- 1)) (Fin 0)) =
     (None, FLT_MAX)"
  by (simp add: FindFirstIntersector_def room_far_hit fless_irrefl)

subsection \<open>C3: occlusion by object identity\<close>



subsection \<open>C4: the diffuse contribution\<close>



subsection \<open>C5: the specular contribution\<close>

text \<open>
  Claim C5 says that the specular contribution of a light that is not occluded is the
  square of the dot product of \<open>reflect(raydir, normal)\<close> with \<open>lightDir\<close>, not clamped,
  times the specular colour of the hit material. \<^verbatim>\<open>TraceRay\<close> squares the dot product
  without clamping it, but multiplies by the specular colour of the material at
  (0, 0, 0) (line 120), not of the material at the intersection point: the defect of
  claim C1. On the checkerboard ground under the ceiling light, the ray from (1, 1, 0)
  straight down hits the ground at (1, 0, 0), where the specular colour is (0, 0, 0), and
  the dot product is 2: the contribution the claim describes is (0, 0, 0). The emissive
  start and the diffuse contribution are (0, 0, 0) as well, and \<^const>\<open>TraceRay\<close> returns
  (2, 2, 2): it has added 4 times the specular colour (1/2, 1/2, 1/2) of the tile at
  (0, 0, 0).
\<close>

theorem TraceRay_specular_at_origin:
  "FindFirstIntersector room [0, 1] (Vec3 (Fin 1) (Fin 1) (Fin 0)) (Vec3 (Fin 0) (Fin (- 2)) (Fin 0)) =
     (Some 0, Fin 1) \<and>
   hit_point (Vec3 (Fin 1) (Fin 1) (Fin 0)) (Vec3 (Fin 0) (Fin (- 2)) (Fin 0)) (Fin 1) =
     Vec3 (Fin 1) (Fin 0) (Fin 0) \<and>
   filter (\<lambda>light. occluder_of room [0, 1] (Vec3 (Fin 1) (Fin 0) (Fin 0)) light = Some light) [0, 1] = [1] \<and>
   dot (reflect (Vec3 (Fin 0) (Fin (- 2)) (Fin 0)) (GetSurfaceNormal (room 0) (Vec3 (Fin 1) (Fin 0) (Fin 0))))
       (lightDir room (Vec3 (Fin 1) (Fin 0) (Fin 0)) 1) = Fin 2 \<and>
   specular (GetMaterial (room 0) (Vec3 (Fin 1) (Fin 0) (Fin 0))) = Vec3 (Fin 0) (Fin 0) (Fin 0) \<and>
   specular (GetMaterial (room 0) (Vec3 (Fin 0) (Fin 0) (Fin 0))) = Vec3 (Fin (1 / 2)) (Fin (1 / 2)) (Fin (1 / 2)) \<and>
   emissive (GetMaterial (room 0) (Vec3 (Fin 0) (Fin 0) (Fin 0))) = Vec3 (Fin 0) (Fin 0) (Fin 0) \<and>
   diffuse_term (GetSurfaceNormal (room 0) (Vec3 (Fin 1) (Fin 0) (Fin 0)))
     (lightDir room (Vec3 (Fin 1) (Fin 0) (Fin 0)) 1)
     (albedo (GetMaterial (room 0) (Vec3 (Fin 1) (Fin 0) (Fin 0))))
     (emissive (GetMaterial (room 1) (Vec3 (Fin 0) (Fin 0) (Fin 0)))) = Vec3 (Fin 0) (Fin 0) (Fin 0) \<and>
   TraceRay room [0, 1] (Vec3 (Fin 1) (Fin 1) (Fin 0)) (Vec3 (Fin 0) (Fin (- 2)) (Fin 0)) 0 =
     Inr (Vec3 (Fin 2) (Fin 2) (Fin 2))"
  by (simp add: room_primary room_hit_point room_occluder_ground room_occluder_ceiling
      room_lightDir room_fields tiles_values room_terms room_TraceRay)
     (simp add: evenTile_def oddTile_def)

subsection \<open>C6: the shadow ray\<close>

text \<open>
  Claim C6. When the traced ray hits an object, the colour returned by \<^verbatim>\<open>TraceRay\<close> is
  the emissive colour it starts from plus, for every candidate light, its contribution
  if and only if the nearest-hit search started at the intersection point plus 0.001
  times the normalised light direction, along that same normalised light direction,
  returns the light. Where \<^verbatim>\<open>GetRayFrom\<close> is a vector of numbers other than the zero
  vector and the intersection point is a vector of numbers, that direction has length 1
  and the start of the shadow ray lies at the distance 0.001 from the intersection
  point.
\<close>

theorem TraceRay_shadow_rays:
  assumes "FindFirstIntersector st sceneObjects rayorig raydir = (Some obj, minDistance)"
  shows "TraceRay st sceneObjects rayorig raydir depth =
     Inr (emissive (GetMaterial (st obj) (Vec3 (Fin 0) (Fin 0) (Fin 0))) +
          (\<Sum>light\<leftarrow>sceneObjects.
             if fst (FindFirstIntersector st sceneObjects
                       (hit_point rayorig raydir minDistance +
                        vmulf (glm_normalize (GetRayFrom (st light) (hit_point rayorig raydir minDistance)))
                          (Fin 0.001))
                       (glm_normalize (GetRayFrom (st light) (hit_point rayorig raydir minDistance)))) =
                Some light
             then diffuse_term
                    (GetSurfaceNormal (st obj) (hit_point rayorig raydir minDistance))
                    (glm_normalize (GetRayFrom (st light) (hit_point rayorig raydir minDistance)))
                    (albedo (GetMaterial (st obj) (hit_point rayorig raydir minDistance)))
                    (emissive (GetMaterial (st light) (Vec3 (Fin 0) (Fin 0) (Fin 0)))) +
                  specular_term raydir
                    (GetSurfaceNormal (st obj) (hit_point rayorig raydir minDistance))
                    (glm_normalize (GetRayFrom (st light) (hit_point rayorig raydir minDistance)))
                    (specular (GetMaterial (st obj) (Vec3 (Fin 0) (Fin 0) (Fin 0))))
             else 0)) \<and>
    (\<forall>light a b c p q r.
       GetRayFrom (st light) (hit_point rayorig raydir minDistance) = Vec3 (Fin a) (Fin b) (Fin c) \<and>
       (a \<noteq> 0 \<or> b \<noteq> 0 \<or> c \<noteq> 0) \<and>
       hit_point rayorig raydir minDistance = Vec3 (Fin p) (Fin q) (Fin r) \<longrightarrow>
       dot (glm_normalize (GetRayFrom (st light) (hit_point rayorig raydir minDistance)))
           (glm_normalize (GetRayFrom (st light) (hit_point rayorig raydir minDistance))) = Fin 1 \<and>
       dot ((hit_point rayorig raydir minDistance +
             vmulf (glm_normalize (GetRayFrom (st light) (hit_point rayorig raydir minDistance)))
               (Fin 0.001)) - hit_point rayorig raydir minDistance)
           ((hit_point rayorig raydir minDistance +
             vmulf (glm_normalize (GetRayFrom (st light) (hit_point rayorig raydir minDistance)))
               (Fin 0.001)) - hit_point rayorig raydir minDistance) = Fin (0.001 * 0.001))"
proof (intro conjI allI impI)
  show "TraceRay st sceneObjects rayorig raydir depth =
     Inr (emissive (GetMaterial (st obj) (Vec3 (Fin 0) (Fin 0) (Fin 0))) +
          (\<Sum>light\<leftarrow>sceneObjects.
             if fst (FindFirstIntersector st sceneObjects
                       (hit_point rayorig raydir minDistance +
                        vmulf (glm_normalize (GetRayFrom (st light) (hit_point rayorig raydir minDistance)))
                          (Fin 0.001))
                       (glm_normalize (GetRayFrom (st light) (hit_point rayorig raydir minDistance)))) =
                Some light
             then diffuse_term
                    (GetSurfaceNormal (st obj) (hit_point rayorig raydir minDistance))
                    (glm_normalize (GetRayFrom (st light) (hit_point rayorig raydir minDistance)))
                    (albedo (GetMaterial (st obj) (hit_point rayorig raydir minDistance)))
                    (emissive (GetMaterial (st light) (Vec3 (Fin 0) (Fin 0) (Fin 0)))) +
                  specular_term raydir
                    (GetSurfaceNormal (st obj) (hit_point rayorig raydir minDistance))
                    (glm_normalize (GetRayFrom (st light) (hit_point rayorig raydir minDistance)))
                    (specular (GetMaterial (st obj) (Vec3 (Fin 0) (Fin 0) (Fin 0))))
             else 0))"
    by (rule TraceRay_sum [OF assms, unfolded occluder_of_def lightDir_def])
next
  fix light a b c p q r
  assume h: "GetRayFrom (st light) (hit_point rayorig raydir minDistance) = Vec3 (Fin a) (Fin b) (Fin c) \<and>
       (a \<noteq> 0 \<or> b \<noteq> 0 \<or> c \<noteq> 0) \<and>
       hit_point rayorig raydir minDistance = Vec3 (Fin p) (Fin q) (Fin r)"
  then have nz: "a \<noteq> 0 \<or> b \<noteq> 0 \<or> c \<noteq> 0"
    and g: "GetRayFrom (st light) (hit_point rayorig raydir minDistance) = Vec3 (Fin a) (Fin b) (Fin c)"
    and hp: "hit_point rayorig raydir minDistance = Vec3 (Fin p) (Fin q) (Fin r)"
    by blast+
  show "dot (glm_normalize (GetRayFrom (st light) (hit_point rayorig raydir minDistance)))
           (glm_normalize (GetRayFrom (st light) (hit_point rayorig raydir minDistance))) = Fin 1"
    unfolding g by (rule dot_glm_normalize [OF nz])
  show "dot ((hit_point rayorig raydir minDistance +
             vmulf (glm_normalize (GetRayFrom (st light) (hit_point rayorig raydir minDistance)))
               (Fin 0.001)) - hit_point rayorig raydir minDistance)
           ((hit_point rayorig raydir minDistance +
             vmulf (glm_normalize (GetRayFrom (st light) (hit_point rayorig raydir minDistance)))
               (Fin 0.001)) - hit_point rayorig raydir minDistance) = Fin (0.001 * 0.001)"
    unfolding g unfolding hp by (rule shadow_offset_length [OF nz])
qed

text \<open>
  At the point (1, 0, 0) of the ground, the shadow ray towards the ceiling light starts
  at (1, 0.001, 0), points straight up and finds the light; the shadow ray towards the
  ground starts at (1, -0.001, 0), points straight down and finds nothing.
\<close>

theorem TraceRay_shadow_rays_witness:
  "FindFirstIntersector room [0, 1] (Vec3 (Fin 1) (Fin 1) (Fin 0)) (Vec3 (Fin 0) (Fin (- 2)) (Fin 0)) =
     (Some 0, Fin 1) \<and>
   hit_point (Vec3 (Fin 1) (Fin 1) (Fin 0)) (Vec3 (Fin 0) (Fin (- 2)) (Fin 0)) (Fin 1) =
     Vec3 (Fin 1) (Fin 0) (Fin 0) \<and>
   GetRayFrom (room 1) (Vec3 (Fin 1) (Fin 0) (Fin 0)) = Vec3 (Fin 0) (Fin 2) (Fin 0) \<and>
   glm_normalize (Vec3 (Fin 0) (Fin 2) (Fin 0)) = Vec3 (Fin 0) (Fin 1) (Fin 0) \<and>
   Vec3 (Fin 1) (Fin 0) (Fin 0) + vmulf (Vec3 (Fin 0) (Fin 1) (Fin 0)) (Fin 0.001) =
     Vec3 (Fin 1) (Fin 0.001) (Fin 0) \<and>
   fst (FindFirstIntersector room [0, 1] (Vec3 (Fin 1) (Fin 0.001) (Fin 0)) (Vec3 (Fin 0) (Fin 1) (Fin 0))) =
     Some 1 \<and>
   fst (FindFirstIntersector room [0, 1] (Vec3 (Fin 1) (Fin (- 0.001)) (Fin 0)) (Vec3 (Fin 0) (Fin (- 1)) (Fin 0))) =
     None \<and>
   TraceRay room [0, 1] (Vec3 (Fin 1) (Fin 1) (Fin 0)) (Vec3 (Fin 0) (Fin (- 2)) (Fin 0)) 0 =
     Inr (Vec3 (Fin 2) (Fin 2) (Fin 2))"
proof -
  note t = TraceRay_shadow_rays [OF room_primary, of 0, THEN conjunct1, unfolded room_hit_point]
  have "TraceRay room [0, Suc 0] (Vec3 (Fin 1) (Fin 1) (Fin 0)) (Vec3 (Fin 0) (Fin (- 2)) (Fin 0)) 0 =
     Inr (Vec3 (Fin 2) (Fin 2) (Fin 2))"
    unfolding t
    by (simp add: room_fields tiles_values glm_normalize_down glm_normalize_up2
        room_shadow_search room_terms tile_emissive)
       (simp add: plus_vec3_def zero_vec3_def zero_float_def)
  moreover have "fst (FindFirstIntersector room [0, Suc 0] (Vec3 (Fin 1) (Fin 0.001) (Fin 0))
      (Vec3 (Fin 0) (Fin 1) (Fin 0))) = Some (Suc 0)"
    using room_shadow_search(2) by (simp add: plus_vec3_def vmulf_def)
  moreover have "fst (FindFirstIntersector room [0, Suc 0] (Vec3 (Fin 1) (Fin (- 0.001)) (Fin 0))
      (Vec3 (Fin 0) (Fin (- 1)) (Fin 0))) = None"
    using room_shadow_search(1) by (simp add: plus_vec3_def vmulf_def)
  ultimately show ?thesis
    by (simp add: room_primary room_hit_point room_fields glm_normalize_up2 plus_vec3_def vmulf_def)
qed

subsection \<open>C7: the colours written by the render driver\<close>


subsection \<open>C8: the direction handed to the objects\<close>

text \<open>
  Claim C8, amended. \<^verbatim>\<open>FindFirstIntersector\<close> does not normalise: it hands the direction
  it receives to \<^verbatim>\<open>Intersects\<close> of every object. Its result for a direction and for
  the normalised direction is the same object and the same distance provided that
  \<^verbatim>\<open>Intersects\<close> of every object of the scene answers the same for both, which is the
  case when the objects normalise the direction themselves.
\<close>

theorem FindFirstIntersector_forwards_direction:
  "(\<forall>p\<in>set sceneObjects.
      Intersects (st p) src (glm_normalize dir) = Intersects (st p) src dir) \<Longrightarrow>
   FindFirstIntersector st sceneObjects src (glm_normalize dir) =
   FindFirstIntersector st sceneObjects src dir"
  by (simp add: FindFirstIntersector_def FindFirstIntersector_loop_cong)

text \<open>
  The planes of the example room normalise the direction: the ray (0, -2, 0) and its
  normalisation find the ground at the distance 1.
\<close>

theorem FindFirstIntersector_forwards_direction_witness:
  "Intersects (room 0) (Vec3 (Fin 1) (Fin 1) (Fin 0)) (glm_normalize (Vec3 (Fin 0) (Fin (- 2)) (Fin 0))) =
     Intersects (room 0) (Vec3 (Fin 1) (Fin 1) (Fin 0)) (Vec3 (Fin 0) (Fin (- 2)) (Fin 0)) \<and>
   Intersects (room 1) (Vec3 (Fin 1) (Fin 1) (Fin 0)) (glm_normalize (Vec3 (Fin 0) (Fin (- 2)) (Fin 0))) =
     Intersects (room 1) (Vec3 (Fin 1) (Fin 1) (Fin 0)) (Vec3 (Fin 0) (Fin (- 2)) (Fin 0)) \<and>
   FindFirstIntersector room [0, 1] (Vec3 (Fin 1) (Fin 1) (Fin 0))
     (glm_normalize (Vec3 (Fin 0) (Fin (- 2)) (Fin 0))) =
     FindFirstIntersector room [0, 1] (Vec3 (Fin 1) (Fin 1) (Fin 0)) (Vec3 (Fin 0) (Fin (- 2)) (Fin 0)) \<and>
   FindFirstIntersector room [0, 1] (Vec3 (Fin 1) (Fin 1) (Fin 0)) (Vec3 (Fin 0) (Fin (- 2)) (Fin 0)) =
     (Some 0, Fin 1)"
proof -
  have same: "\<forall>p\<in>set [0, 1].
     Intersects (room p) (Vec3 (Fin 1) (Fin 1) (Fin 0)) (glm_normalize (Vec3 (Fin 0) (Fin (- 2)) (Fin 0))) =
     Intersects (room p) (Vec3 (Fin 1) (Fin 1) (Fin 0)) (Vec3 (Fin 0) (Fin (- 2)) (Fin 0))"
    by (simp add: room_fields plane_Intersects_vertical glm_normalize_down2 glm_normalize_down)
  show ?thesis
    using FindFirstIntersector_forwards_direction [OF same] same room_primary by simp
qed

text \<open>
  Claim C8 as stated fails on an object that does not normalise: the ground with the
  plain quotient reports the distance 1/2 along (0, -2, 0) and the distance 1 along
  the normalised direction (0, -1, 0), and \<^verbatim>\<open>FindFirstIntersector\<close> returns each as it is.
\<close>

theorem FindFirstIntersector_raw_direction_counterexample:
  "FindFirstIntersector raw_room [0] (Vec3 (Fin 0) (Fin 1) (Fin 0)) (Vec3 (Fin 0) (Fin (- 2)) (Fin 0)) =
     (Some 0, Fin (1 / 2)) \<and>
   FindFirstIntersector raw_room [0] (Vec3 (Fin 0) (Fin 1) (Fin 0))
     (glm_normalize (Vec3 (Fin 0) (Fin (- 2)) (Fin 0))) = (Some 0, Fin 1)"
  by (simp add: FindFirstIntersector_def raw_room_fields plane_Intersects_raw_def
      glm_normalize_down2 dot_def minus_vec3_def FLT_MAX_def)

subsection \<open>C9: the depth argument and the reflectance field\<close>

text \<open>
  Claim C9. The result of \<^verbatim>\<open>TraceRay\<close> depends neither on its depth argument nor on the
  \<^verbatim>\<open>reflectance\<close> of any material: for all depths \<open>d1\<close> and \<open>d2\<close>, and whatever
  reflectances \<open>r\<close> are written into the materials of the scene, the traced colour (or
  the failure) is the same. No bounce is traced: \<^const>\<open>TraceRay\<close> is not recursive.
\<close>

theorem TraceRay_ignores_depth_and_reflectance:
  "TraceRay (with_reflectance r st) sceneObjects rayorig raydir d1 =
   TraceRay st sceneObjects rayorig raydir d2"
  by (simp add: Let_def TraceRay_def FindFirstIntersector_with_reflectance
      shade_loop_with_reflectance with_reflectance_fields split: prod.splits option.splits)

subsection \<open>C10: the null pointer\<close>

text \<open>
  Claim C10, with the sentinel made explicit. If no scene object intersects the ray,
  \<^verbatim>\<open>FindFirstIntersector\<close> returns the null pointer and leaves \<^verbatim>\<open>FLT_MAX\<close> in the
  distance, and \<^verbatim>\<open>TraceRay\<close> dereferences the null pointer. \<^verbatim>\<open>TraceRay\<close> dereferences
  the null pointer exactly when no object reports a hit below \<^verbatim>\<open>FLT_MAX\<close>: its safety
  precondition is that some scene object reports a hit at a distance below \<^verbatim>\<open>FLT_MAX\<close>,
  and under it \<^verbatim>\<open>TraceRay\<close> returns a colour.
\<close>

theorem TraceRay_null_dereference:
  "((\<forall>p\<in>set sceneObjects. Intersects (st p) rayorig raydir = None) \<longrightarrow>
      FindFirstIntersector st sceneObjects rayorig raydir = (None, FLT_MAX) \<and>
      TraceRay st sceneObjects rayorig raydir depth = Inl NullDereference) \<and>
   (TraceRay st sceneObjects rayorig raydir depth = Inl NullDereference \<longleftrightarrow>
      (\<forall>p\<in>set sceneObjects. \<forall>d. Intersects (st p) rayorig raydir = Some d \<longrightarrow> \<not> fless d FLT_MAX)) \<and>
   ((\<exists>p\<in>set sceneObjects. \<exists>d. Intersects (st p) rayorig raydir = Some d \<and> fless d FLT_MAX) \<longrightarrow>
      (\<exists>color. TraceRay st sceneObjects rayorig raydir depth = Inr color))"
proof (intro conjI impI)
  show iff: "TraceRay st sceneObjects rayorig raydir depth = Inl NullDereference \<longleftrightarrow>
      (\<forall>p\<in>set sceneObjects. \<forall>d. Intersects (st p) rayorig raydir = Some d \<longrightarrow> \<not> fless d FLT_MAX)"
    by (simp add: TraceRay_Inl_iff FindFirstIntersector_None_iff)
  {
    assume miss: "\<forall>p\<in>set sceneObjects. Intersects (st p) rayorig raydir = None"
    then have far: "\<forall>p\<in>set sceneObjects. \<forall>d.
        Intersects (st p) rayorig raydir = Some d \<longrightarrow> \<not> fless d FLT_MAX"
      by simp
    then show "TraceRay st sceneObjects rayorig raydir depth = Inl NullDereference"
      using iff by simp
    from far have "fst (FindFirstIntersector st sceneObjects rayorig raydir) = None"
      by (simp add: FindFirstIntersector_None_iff)
    then obtain dst where run: "FindFirstIntersector st sceneObjects rayorig raydir = (None, dst)"
      by (cases "FindFirstIntersector st sceneObjects rayorig raydir") simp
    from FindFirstIntersector_None [OF run] have "dst = FLT_MAX" by simp
    with run show "FindFirstIntersector st sceneObjects rayorig raydir = (None, FLT_MAX)"
      by simp
  }
  assume "\<exists>p\<in>set sceneObjects. \<exists>d. Intersects (st p) rayorig raydir = Some d \<and> fless d FLT_MAX"
  then have "TraceRay st sceneObjects rayorig raydir depth \<noteq> Inl NullDereference"
    using iff by auto
  then show "\<exists>color. TraceRay st sceneObjects rayorig raydir depth = Inr color"
    by (cases "TraceRay st sceneObjects rayorig raydir depth") (auto simp add: TraceRay_Inl_iff)
qed

text \<open>
  From above the ceiling, looking up, no plane of the room is hit and the trace fails;
  from (1, 1, 0), looking down, the ground is hit at the distance 1 and the trace
  returns a colour.
\<close>

theorem TraceRay_null_dereference_witness:
  "Intersects (room 0) (Vec3 (Fin 0) (Fin 3) (Fin 0)) (Vec3 (Fin 0) (Fin 1) (Fin 0)) = None \<and>
   Intersects (room 1) (Vec3 (Fin 0) (Fin 3) (Fin 0)) (Vec3 (Fin 0) (Fin 1) (Fin 0)) = None \<and>
   FindFirstIntersector room [0, 1] (Vec3 (Fin 0) (Fin 3) (Fin 0)) (Vec3 (Fin 0) (Fin 1) (Fin 0)) =
     (None, FLT_MAX) \<and>
   TraceRay room [0, 1] (Vec3 (Fin 0) (Fin 3) (Fin 0)) (Vec3 (Fin 0) (Fin 1) (Fin 0)) 0 =
     Inl NullDereference \<and>
   Intersects (room 0) (Vec3 (Fin 1) (Fin 1) (Fin 0)) (Vec3 (Fin 0) (Fin (- 2)) (Fin 0)) = Some (Fin 1) \<and>
   fless (Fin 1) FLT_MAX \<and>
   TraceRay room [0, 1] (Vec3 (Fin 1) (Fin 1) (Fin 0)) (Vec3 (Fin 0) (Fin (- 2)) (Fin 0)) 0 =
     Inr (Vec3 (Fin 2) (Fin 2) (Fin 2))"
proof -
  have miss: "\<forall>p\<in>set [0, 1].
      Intersects (room p) (Vec3 (Fin 0) (Fin 3) (Fin 0)) (Vec3 (Fin 0) (Fin 1) (Fin 0)) = None"
    by (simp add: room_miss)
  have hit: "Intersects (room 0) (Vec3 (Fin 1) (Fin 1) (Fin 0)) (Vec3 (Fin 0) (Fin (- 2)) (Fin 0)) =
      Some (Fin 1)"
    by (simp add: room_fields plane_Intersects_vertical glm_normalize_down2)
  have "FindFirstIntersector room [0, 1] (Vec3 (Fin 0) (Fin 3) (Fin 0)) (Vec3 (Fin 0) (Fin 1) (Fin 0)) =
          (None, FLT_MAX) \<and>
        TraceRay room [0, 1] (Vec3 (Fin 0) (Fin 3) (Fin 0)) (Vec3 (Fin 0) (Fin 1) (Fin 0)) 0 =
          Inl NullDereference"
    using TraceRay_null_dereference [of "[0, 1]" room "Vec3 (Fin 0) (Fin 3) (Fin 0)"
        "Vec3 (Fin 0) (Fin 1) (Fin 0)" 0] miss
    by blast
  then show ?thesis
    using hit room_TraceRay [of 0] by (simp add: room_miss FLT_MAX_def)
qed

text \<open>
  Claim C10 as stated fails at the sentinel: seen from the height \<^verbatim>\<open>FLT_MAX\<close> straight
  down, the ray hits the ground, at the distance \<^verbatim>\<open>FLT_MAX\<close>, and \<^verbatim>\<open>TraceRay\<close> still
  dereferences the null pointer.
\<close>

theorem TraceRay_far_hit_counterexample:
  "Intersects (room 0) (Vec3 (Fin 0) FLT_MAX (Fin 0)) (Vec3 (Fin 0) (Fin (- 1)) (Fin 0)) = Some FLT_MAX \<and>
   TraceRay room [0] (Vec3 (Fin 0) FLT_MAX (Fin 0)) (Vec3 (Fin 0) (Fin (- 1)) (Fin 0)) 0 =
     Inl NullDereference"
  by (simp add: TraceRay_def FindFirstIntersector_def room_far_hit fless_irrefl)

end
